theory Spec2Isabelle
  imports Main "HOL-Library.AList"
begin

section \<open>Python values, exceptions and the world\<close>

text \<open>
  The module \<^verbatim>\<open>PyLogDecorate/log.py\<close> is embedded over a small universe of Python
  values. An instance is a reference into a heap of objects, because the code reads and
  writes attributes of the objects it is handed (\<^verbatim>\<open>instance.logger = ...\<close>) and
  the wrapped callable may mutate them. A logger handle is identified by its name:
  \<^verbatim>\<open>logging.getLogger(name)\<close> returns the same object for the same name.
  A type object is identified by its module and name.
\<close>

datatype pyval =
    PNone
  | PBool bool
  | PInt int
  | PStr string
  | PLogger string
  | PType string string
  | PRef nat

text \<open>
  An exception object: its class name, its message, whether its class derives from
  \<^verbatim>\<open>Exception\<close> (a \<^verbatim>\<open>KeyboardInterrupt\<close> does not, and
  \<^verbatim>\<open>except Exception\<close> lets it pass), and its truth value
  (\<^verbatim>\<open>if err:\<close> asks for it; it is true unless the class defines
  \<^verbatim>\<open>__bool__\<close> or \<^verbatim>\<open>__len__\<close> otherwise).
\<close>

datatype pyexc =
  PyExc (exc_class: string) (exc_msg: string) (exc_is_Exception: bool) (exc_truthy: bool)

datatype 'a outcome = Returned 'a | Raised pyexc

definition TypeError :: "string \<Rightarrow> pyexc" where
  "TypeError msg = PyExc ''TypeError'' msg True True"

definition AttributeError :: "string \<Rightarrow> pyexc" where
  "AttributeError msg = PyExc ''AttributeError'' msg True True"

definition ValueError :: "string \<Rightarrow> pyexc" where
  "ValueError msg = PyExc ''ValueError'' msg True True"

definition KeyError :: "string \<Rightarrow> pyexc" where
  "KeyError msg = PyExc ''KeyError'' msg True True"

definition IndexError :: "string \<Rightarrow> pyexc" where
  "IndexError msg = PyExc ''IndexError'' msg True True"

type_synonym pydict = "(string \<times> pyval) list"

text \<open>
  A heap object: the module and name of its class, the attributes \<^verbatim>\<open>getattr\<close>
  finds on it, what \<^verbatim>\<open>str\<close> does on it (a user \<^verbatim>\<open>__str__\<close> may raise),
  and its truth value.
\<close>

record pyobj =
  obj_module :: string
  obj_class :: string
  obj_attrs :: pydict
  obj_str :: "string outcome"
  obj_truthy :: bool

text \<open>
  A call of \<^verbatim>\<open>logger.debug(msg, extra=...)\<close> that reached a logger handle.
  Whether the logging backend then prints it (its level, its handlers) is outside
  the module.
\<close>

record logrec =
  rec_logger :: string
  rec_msg :: string
  rec_extra :: pydict

text \<open>
  The world a call runs in: the heap, the records handed to the logging backend, the
  levels set by \<^verbatim>\<open>setLevel\<close>, and two functions of the environment the module
  only calls: how the backend prints a logger handle, and \<^verbatim>\<open>os.path.relpath\<close>
  for the current working directory, which raises \<^verbatim>\<open>ValueError\<close> for an empty
  path and for a path on another drive.
\<close>

record world =
  heap :: "nat \<Rightarrow> pyobj"
  emitted :: "logrec list"
  levels :: "(string \<times> pyval) list"
  logger_repr :: "string \<Rightarrow> string"
  relpath :: "string \<Rightarrow> string outcome"

type_synonym 'a effect = "world \<Rightarrow> 'a outcome \<times> world"

subsection \<open>Builtins the module calls\<close>

fun digits :: "nat \<Rightarrow> string" where
  "digits n = (if n < 10 then [''0123456789'' ! n]
               else digits (n div 10) @ [''0123456789'' ! (n mod 10)])"

declare digits.simps [simp del]

definition str_int :: "int \<Rightarrow> string" where
  "str_int i = (if i < 0 then ''-'' @ digits (nat (- i)) else digits (nat i))"

definition py_class :: "world \<Rightarrow> pyval \<Rightarrow> string \<times> string" where
  "py_class w v =
     (case v of
        PNone \<Rightarrow> (''builtins'', ''NoneType'')
      | PBool _ \<Rightarrow> (''builtins'', ''bool'')
      | PInt _ \<Rightarrow> (''builtins'', ''int'')
      | PStr _ \<Rightarrow> (''builtins'', ''str'')
      | PLogger _ \<Rightarrow> (''logging'', ''Logger'')
      | PType _ _ \<Rightarrow> (''builtins'', ''type'')
      | PRef a \<Rightarrow> (obj_module (heap w a), obj_class (heap w a)))"

definition py_type :: "world \<Rightarrow> pyval \<Rightarrow> pyval" where
  "py_type w v = PType (fst (py_class w v)) (snd (py_class w v))"

text \<open>\<^verbatim>\<open>inspect.isclass(x)\<close> is \<^verbatim>\<open>isinstance(x, type)\<close>.\<close>

definition inspect_isclass :: "pyval \<Rightarrow> bool" where
  "inspect_isclass v = (case v of PType _ _ \<Rightarrow> True | _ \<Rightarrow> False)"

definition py_str :: "world \<Rightarrow> pyval \<Rightarrow> string outcome" where
  "py_str w v =
     (case v of
        PNone \<Rightarrow> Returned ''None''
      | PBool b \<Rightarrow> Returned (if b then ''True'' else ''False'')
      | PInt i \<Rightarrow> Returned (str_int i)
      | PStr s \<Rightarrow> Returned s
      | PLogger n \<Rightarrow> Returned (logger_repr w n)
      | PType m n \<Rightarrow>
          Returned (if m = ''builtins'' then ''<class '' @ [CHR 0x27] @ n @ [CHR 0x27] @ ''>''
                    else ''<class '' @ [CHR 0x27] @ m @ ''.'' @ n @ [CHR 0x27] @ ''>'')
      | PRef a \<Rightarrow> obj_str (heap w a))"

definition py_truthy :: "world \<Rightarrow> pyval \<Rightarrow> bool" where
  "py_truthy w v =
     (case v of
        PNone \<Rightarrow> False
      | PBool b \<Rightarrow> b
      | PInt i \<Rightarrow> i \<noteq> 0
      | PStr s \<Rightarrow> s \<noteq> []
      | PLogger _ \<Rightarrow> True
      | PType _ _ \<Rightarrow> True
      | PRef a \<Rightarrow> obj_truthy (heap w a))"

text \<open>
  Attribute lookup: only heap objects carry the attributes the module asks for
  (\<^verbatim>\<open>logger\<close> and the traced attribute). \<open>None\<close> is a missing attribute.
\<close>

definition py_getattr :: "world \<Rightarrow> pyval \<Rightarrow> string \<Rightarrow> pyval option" where
  "py_getattr w v name =
     (case v of PRef a \<Rightarrow> map_of (obj_attrs (heap w a)) name | _ \<Rightarrow> None)"

definition hasattr :: "world \<Rightarrow> pyval \<Rightarrow> string \<Rightarrow> bool" where
  "hasattr w v name = (py_getattr w v name \<noteq> None)"

definition py_setattr :: "pyval \<Rightarrow> string \<Rightarrow> pyval \<Rightarrow> unit effect" where
  "py_setattr v name x w =
     (case v of
        PRef a \<Rightarrow>
          (Returned (),
           w\<lparr>heap := (heap w)(a := (heap w a)\<lparr>obj_attrs := AList.update name x (obj_attrs (heap w a))\<rparr>)\<rparr>)
      | _ \<Rightarrow> (Raised (AttributeError (''object has no attribute '' @ name)), w))"

definition getLogger :: "string \<Rightarrow> pyval" where
  "getLogger name = PLogger name"

fun join :: "string \<Rightarrow> string list \<Rightarrow> string" where
  "join sep [] = []"
| "join sep [x] = x"
| "join sep (x # y # ys) = x @ sep @ join sep (y # ys)"

section \<open>Module helpers (lines 13 to 38)\<close>

text \<open>
  A policy argument is \<^verbatim>\<open>None\<close> or a dictionary; a dictionary is an association
  list with distinct keys. \<^verbatim>\<open>not dic\<close> holds for \<^verbatim>\<open>None\<close> and for the empty
  dictionary. \<^verbatim>\<open>dic[key]==True\<close> holds for \<^verbatim>\<open>True\<close> and for \<^verbatim>\<open>1\<close>.
\<close>

definition eq_True :: "pyval \<Rightarrow> bool" where
  "eq_True v = (v = PBool True \<or> v = PInt 1)"

definition keyIsTrue :: "pydict option \<Rightarrow> string \<Rightarrow> bool" where
  "keyIsTrue dic key =
     (case dic of
        None \<Rightarrow> False
      | Some d \<Rightarrow>
          if d = [] then False
          else (case map_of d key of Some v \<Rightarrow> eq_True v | None \<Rightarrow> False))"

definition haskey :: "pydict option \<Rightarrow> string \<Rightarrow> bool" where
  "haskey dic key =
     (case dic of
        None \<Rightarrow> False
      | Some d \<Rightarrow> if d = [] then False else map_of d key \<noteq> None)"

text \<open>\<^verbatim>\<open>toStr\<close>: the bare \<^verbatim>\<open>except\<close> catches whatever \<^verbatim>\<open>str\<close> raises.\<close>

definition toStr :: "world \<Rightarrow> pyval \<Rightarrow> string" where
  "toStr w obj =
     (case py_str w obj of
        Returned s \<Rightarrow> s
      | Raised _ \<Rightarrow> (case py_str w (py_type w obj) of Returned t \<Rightarrow> t | Raised _ \<Rightarrow> []))"

definition default_max :: nat where
  "default_max = 20"

definition toShortStr :: "world \<Rightarrow> pyval \<Rightarrow> nat \<Rightarrow> string" where
  "toShortStr w obj mx =
     (let s = toStr w obj
      in if length s > mx then toStr w (py_type w obj) else s)"

section \<open>The call interceptor (lines 40 to 157)\<close>

record frame =
  co_filename :: string
  f_lineno :: int

type_synonym kwargs = "(string \<times> pyval) list"

text \<open>
  A callable handed to the decorator: \<^verbatim>\<open>fn.__module__\<close>,
  \<^verbatim>\<open>fn.__class__.__name__\<close>, what evaluating \<^verbatim>\<open>fn.__name__\<close> for the
  message gives (the name, or the \<^verbatim>\<open>AttributeError\<close> of a callable without one,
  such as a \<^verbatim>\<open>functools.partial\<close> object), and what calling it with positional and
  keyword arguments does.
\<close>

record pyfn =
  fn_module :: string
  fn_class :: string
  fn_name :: "string outcome"
  fn_body :: "pyval list \<Rightarrow> kwargs \<Rightarrow> pyval effect"

type_synonym hook = "pyval \<Rightarrow> frame \<Rightarrow> pyfn \<Rightarrow> pyval list \<Rightarrow> kwargs \<Rightarrow> pyval \<Rightarrow> unit effect"

text \<open>
  A decorator object: \<^verbatim>\<open>self.args\<close> (a dictionary after \<^verbatim>\<open>__init__\<close>) and the
  \<^verbatim>\<open>log_f\<close> its class gives it; a subclass overrides \<^verbatim>\<open>log_f\<close>.
\<close>

record decorator =
  dargs :: pydict
  dlog_f :: hook

definition LogCallBase_log_f :: hook where
  "LogCallBase_log_f logger fr fn args kw result w = (Returned (), w)"

text \<open>
  Lines 145 to 157. \<^verbatim>\<open>logger.debug\<close> is looked up before its argument is
  evaluated; only a logger handle has it. The dictionary of line 152 is then built in
  order: \<^verbatim>\<open>os.path.relpath\<close> first, \<^verbatim>\<open>fn.__name__\<close> after it; either may
  raise, and then nothing is handed to the logger.
\<close>

definition LogCall_log_f :: hook where
  "LogCall_log_f logger fr fn args kw result w =
     (let arglist = join '', '' (map (\<lambda>a. toShortStr w a default_max) args);
          arglist' =
            (if kw \<noteq> [] then
               arglist @ '', '' @
               join '', '' (map (\<lambda>(k, v). toStr w (PStr k) @ ''='' @ toShortStr w v default_max) kw)
             else arglist)
      in case logger of
           PLogger n \<Rightarrow>
             (case relpath w (co_filename fr) of
                Raised e \<Rightarrow> (Raised e, w)
              | Returned file \<Rightarrow>
                  (case fn_name fn of
                     Raised e \<Rightarrow> (Raised e, w)
                   | Returned func \<Rightarrow>
                       (Returned (),
                        w\<lparr>emitted := emitted w @
                           [\<lparr>rec_logger = n,
                             rec_msg = file @ '' '' @ str_int (f_lineno fr) @ '': '' @
                                       func @ ''('' @ arglist' @ '') -> '' @
                                       toShortStr w result default_max,
                             rec_extra = []\<rparr>]\<rparr>)))
         | _ \<Rightarrow> (Raised (AttributeError ''object has no attribute debug''), w))"

definition LogCallBase :: "pydict option \<Rightarrow> decorator" where
  "LogCallBase args =
     \<lparr>dargs = (case args of None \<Rightarrow> [] | Some d \<Rightarrow> d), dlog_f = LogCallBase_log_f\<rparr>"

definition LogCall :: "pydict option \<Rightarrow> decorator" where
  "LogCall args =
     \<lparr>dargs = (case args of None \<Rightarrow> [] | Some d \<Rightarrow> d), dlog_f = LogCall_log_f\<rparr>"

text \<open>
  \<^verbatim>\<open>trace_in\<close> and \<^verbatim>\<open>trace_out\<close> differ in the label of the message and the
  key of the extra field only. In the order Python evaluates: the traced attribute is
  read and converted, \<^verbatim>\<open>logger.debug\<close> is looked up, the message is formatted.
\<close>

definition trace_configured :: "decorator \<Rightarrow> bool" where
  "trace_configured self =
     (haskey (Some (dargs self)) ''tracename'' \<and> haskey (Some (dargs self)) ''traceattr'')"

definition trace_event :: "string \<Rightarrow> string \<Rightarrow> decorator \<Rightarrow> pyval \<Rightarrow> pyval \<Rightarrow> unit effect" where
  "trace_event label key self logger instance w =
     (if trace_configured self then
        (case (map_of (dargs self) ''tracename'', map_of (dargs self) ''traceattr'') of
           (Some tracename, Some (PStr attr)) \<Rightarrow>
             (case py_str w (case py_getattr w instance attr of Some v \<Rightarrow> v | None \<Rightarrow> PStr []) of
                Raised e \<Rightarrow> (Raised e, w)
              | Returned traceattr \<Rightarrow>
                  (case logger of
                     PLogger n \<Rightarrow>
                       (case py_str w tracename of
                          Raised e \<Rightarrow> (Raised e, w)
                        | Returned tn \<Rightarrow>
                            (Returned (),
                             w\<lparr>emitted := emitted w @
                                [\<lparr>rec_logger = n,
                                  rec_msg = label @ '': '' @ tn @ '', traceattr: '' @ traceattr,
                                  rec_extra = [(key, tracename), (''traceattr'', PStr traceattr)]\<rparr>]\<rparr>))
                   | _ \<Rightarrow> (Raised (AttributeError ''object has no attribute debug''), w)))
         | _ \<Rightarrow> (Raised (TypeError ''attribute name must be string''), w))
      else (Returned (), w))"

definition trace_in :: "decorator \<Rightarrow> pyval \<Rightarrow> pyval \<Rightarrow> unit effect" where
  "trace_in = trace_event ''tracein'' ''trace_in''"

definition trace_out :: "decorator \<Rightarrow> pyval \<Rightarrow> pyval \<Rightarrow> unit effect" where
  "trace_out = trace_event ''traceout'' ''trace_out''"

subsection \<open>\<^verbatim>\<open>wrapped_f\<close>, lines 57 to 98\<close>

text \<open>
  Lines 61 to 72: the classification of the call and the logger it uses.
\<close>

definition select_logger :: "pyfn \<Rightarrow> pyval list \<Rightarrow> world \<Rightarrow> bool \<times> pyval" where
  "select_logger fn args w =
     (case args of
        a # _ \<Rightarrow>
          if inspect_isclass (py_type w a) then
            (True,
             case py_getattr w a ''logger'' of
               Some lg \<Rightarrow> lg
             | None \<Rightarrow> getLogger (fn_module fn @ ''.'' @ fn_class fn))
          else (False, getLogger (fn_module fn))
      | [] \<Rightarrow> (False, getLogger (fn_module fn)))"

text \<open>
  Lines 74 to 80: the guarded region. \<^verbatim>\<open>except Exception\<close> turns an exception of
  the trace calls or of the callable into the sentinel result and \<^verbatim>\<open>err\<close>; any
  other exception leaves \<^verbatim>\<open>wrapped_f\<close> at once.
\<close>

datatype guarded = Escaped pyexc | Settled pyval "pyexc option"

text \<open>
  Lines 75 and 77: \<^verbatim>\<open>if classfn: self.trace_in(logger, args[0])\<close>, and the same
  with \<^verbatim>\<open>trace_out\<close>.
\<close>

definition traced ::
  "(decorator \<Rightarrow> pyval \<Rightarrow> pyval \<Rightarrow> unit effect) \<Rightarrow> decorator \<Rightarrow> bool \<Rightarrow> pyval \<Rightarrow> pyval list \<Rightarrow> unit effect" where
  "traced tr self classfn logger args w =
     (if classfn then
        (case args of
           a # _ \<Rightarrow> tr self logger a w
         | [] \<Rightarrow> (Raised (IndexError ''tuple index out of range''), w))
      else (Returned (), w))"

definition caught :: "pyexc \<Rightarrow> guarded" where
  "caught e = (if exc_is_Exception e then Settled (PStr ''CRASHED'') (Some e) else Escaped e)"

definition guarded_call :: "decorator \<Rightarrow> pyfn \<Rightarrow> bool \<Rightarrow> pyval \<Rightarrow> pyval list \<Rightarrow> world \<Rightarrow> guarded \<times> world" where
  "guarded_call self fn classfn logger args w =
     (case traced trace_in self classfn logger args w of
        (Raised e, w1) \<Rightarrow> (caught e, w1)
      | (Returned _, w1) \<Rightarrow>
          (case fn_body fn args [] w1 of
             (Raised e, w2) \<Rightarrow> (caught e, w2)
           | (Returned result, w2) \<Rightarrow>
               (case traced trace_out self classfn logger args w2 of
                  (Raised e, w3) \<Rightarrow> (caught e, w3)
                | (Returned _, w3) \<Rightarrow> (Settled result None, w3))))"

text \<open>Lines 94 to 98: the \<^verbatim>\<open>finally\<close> block.\<close>

definition finally_block :: "pyexc option \<Rightarrow> pyval \<Rightarrow> pyval outcome" where
  "finally_block err result =
     (case err of
        Some e \<Rightarrow> if exc_truthy e then Raised e else Returned result
      | None \<Rightarrow> Returned result)"

text \<open>
  Lines 82 to 98. \<open>caller\<close> is the frame \<^verbatim>\<open>sys._getframe(1)\<close> finds, or
  \<open>None\<close> when there is none and it raises \<^verbatim>\<open>ValueError\<close>. In that case the
  handler's \<^verbatim>\<open>del frame\<close> raises in turn (the name was never bound) before
  \<^verbatim>\<open>err\<close> is assigned, and the \<^verbatim>\<open>finally\<close> block decides with the
  \<^verbatim>\<open>err\<close> of the guarded region. When \<^verbatim>\<open>log_f\<close> raises an
  \<^verbatim>\<open>Exception\<close>, the handler assigns it to \<^verbatim>\<open>err\<close>; any other exception
  passes the handler, and the \<^verbatim>\<open>finally\<close> block decides with the old
  \<^verbatim>\<open>err\<close>.
\<close>

definition report :: "decorator \<Rightarrow> pyval \<Rightarrow> pyfn \<Rightarrow> frame option \<Rightarrow> pyval list \<Rightarrow> pyval \<Rightarrow> pyexc option \<Rightarrow> pyval effect" where
  "report self logger fn caller args result err w =
     (case caller of
        None \<Rightarrow> (finally_block err result, w)
      | Some fr \<Rightarrow>
          (case dlog_f self logger fr fn args [] result w of
             (Returned _, w') \<Rightarrow> (finally_block err result, w')
           | (Raised e, w') \<Rightarrow>
               (finally_block (if exc_is_Exception e then Some e else err) result, w')))"

definition wrapped_f :: "decorator \<Rightarrow> pyfn \<Rightarrow> frame option \<Rightarrow> pyval list \<Rightarrow> pyval effect" where
  "wrapped_f self fn caller args w =
     (case select_logger fn args w of
        (classfn, logger) \<Rightarrow>
          (case guarded_call self fn classfn logger args w of
             (Escaped e, w1) \<Rightarrow> (Raised e, w1)
           | (Settled result err, w1) \<Rightarrow> report self logger fn caller args result err w1))"

section \<open>Callables and their markers\<close>

text \<open>
  What a class attribute can hold, and so what \<^verbatim>\<open>hook\<close> can be handed: a function
  as it was written, the closure \<^verbatim>\<open>wrapped_f\<close> that \<^verbatim>\<open>hook\<close> returns (it holds
  the decorator and the wrapped object), the closure \<^verbatim>\<open>_init\<close> that
  \<^verbatim>\<open>LogClass.__call__\<close> installs (it holds \<^verbatim>\<open>self.args\<close> and
  \<^verbatim>\<open>self.original_init\<close> of its \<^verbatim>\<open>LogClass\<close> object, which decorates one
  class), a \<^verbatim>\<open>LogClass\<close> object (as \<^verbatim>\<open>__loghook__\<close> and
  \<^verbatim>\<open>__subdecorate__\<close> of a class hold one; it is known by its \<^verbatim>\<open>args\<close>), and
  any other value. \<^verbatim>\<open>hook\<close> tests nothing: it wraps whatever it is given.
\<close>

datatype callable =
    Fn pyfn
  | Wrapped decorator callable
  | BoundInit "pydict option" "callable option"
  | Binder "pydict option"
  | Value pyval

text \<open>
  Lines 56 to 106: \<^verbatim>\<open>hook\<close> builds the closure and sets its two markers.
  \<^verbatim>\<open>__loghook__\<close> is on every closure, \<^verbatim>\<open>__subdecorate__\<close> (holding the
  decorator) only when the decorator's \<^verbatim>\<open>subdecorate\<close> option is true.
\<close>

definition hook :: "decorator \<Rightarrow> callable \<Rightarrow> callable" where
  "hook self fn = Wrapped self fn"

text \<open>\<^verbatim>\<open>hasattr(x, "__loghook__")\<close>.\<close>

definition has_loghook :: "world \<Rightarrow> callable \<Rightarrow> bool" where
  "has_loghook w c =
     (case c of Wrapped _ _ \<Rightarrow> True | Value v \<Rightarrow> hasattr w v ''__loghook__'' | _ \<Rightarrow> False)"

text \<open>
  \<^verbatim>\<open>hasattr(fn, "__subdecorate__")\<close> and, when it holds, what
  \<^verbatim>\<open>fn.__subdecorate__.hook\<close> is: \<open>None\<close> when the attribute is missing, the
  decorator whose \<^verbatim>\<open>hook\<close> it is for a closure \<^verbatim>\<open>wrapped_f\<close>, and an error for
  a value that carries an attribute of that name, which has no \<^verbatim>\<open>hook\<close> to call.
\<close>

definition subdecorate_of :: "world \<Rightarrow> callable \<Rightarrow> decorator outcome option" where
  "subdecorate_of w c =
     (case c of
        Wrapped self _ \<Rightarrow>
          if keyIsTrue (Some (dargs self)) ''subdecorate'' then Some (Returned self) else None
      | Value v \<Rightarrow>
          (case py_getattr w v ''__subdecorate__'' of
             None \<Rightarrow> None
           | Some m \<Rightarrow>
               Some (Raised (if hasattr w m ''hook'' then TypeError ''object is not callable''
                             else AttributeError ''object has no attribute hook'')))
      | _ \<Rightarrow> None)"

definition log_py :: string where
  "log_py = ''PyLogDecorate/log.py''"

text \<open>
  \<^verbatim>\<open>fn.__module__\<close>, \<^verbatim>\<open>fn.__class__.__name__\<close> and \<^verbatim>\<open>fn.__name__\<close> of
  what \<^verbatim>\<open>hook\<close> was handed. An object finds \<^verbatim>\<open>__module__\<close> on its class; for a
  value of a builtin type the module of the type stands in.
\<close>

definition callable_module :: "world \<Rightarrow> callable \<Rightarrow> string" where
  "callable_module w c =
     (case c of Fn f \<Rightarrow> fn_module f | Value v \<Rightarrow> fst (py_class w v) | _ \<Rightarrow> ''PyLogDecorate.log'')"

definition callable_class :: "world \<Rightarrow> callable \<Rightarrow> string" where
  "callable_class w c =
     (case c of
        Fn f \<Rightarrow> fn_class f
      | Binder _ \<Rightarrow> ''LogClass''
      | Value v \<Rightarrow> snd (py_class w v)
      | _ \<Rightarrow> ''function'')"

definition callable_name :: "world \<Rightarrow> callable \<Rightarrow> string outcome" where
  "callable_name w c =
     (case c of
        Fn f \<Rightarrow> fn_name f
      | Wrapped _ _ \<Rightarrow> Returned ''wrapped_f''
      | BoundInit _ _ \<Rightarrow> Returned ''_init''
      | Binder _ \<Rightarrow> Raised (AttributeError ''object has no attribute __name__'')
      | Value v \<Rightarrow>
          (case py_getattr w v ''__name__'' of
             None \<Rightarrow> Raised (AttributeError ''object has no attribute __name__'')
           | Some x \<Rightarrow> py_str w x))"

text \<open>A wrapped object as \<^verbatim>\<open>wrapped_f\<close> sees it, given what calling it does.\<close>

definition callable_fn :: "world \<Rightarrow> callable \<Rightarrow> (pyval list \<Rightarrow> kwargs \<Rightarrow> pyval effect) \<Rightarrow> pyfn" where
  "callable_fn w c body =
     \<lparr>fn_module = callable_module w c, fn_class = callable_class w c,
      fn_name = callable_name w c, fn_body = body\<rparr>"

section \<open>The instance binder (lines 159 to 215)\<close>

text \<open>
  Line 203, the right operand of \<^verbatim>\<open>or\<close>:
  \<^verbatim>\<open>keyIsTrue(self.args["inherit_logger"])\<close>. The subscription is evaluated first
  (it fails on \<^verbatim>\<open>None\<close> and on a missing key); then \<^verbatim>\<open>keyIsTrue\<close>, which has
  two parameters without defaults, is called with one argument.
\<close>

definition keyIsTrue_one_argument :: "pyval \<Rightarrow> bool outcome" where
  "keyIsTrue_one_argument v =
     Raised (TypeError ''keyIsTrue() missing 1 required positional argument: key'')"

definition inherit_logger_operand :: "pydict option \<Rightarrow> bool outcome" where
  "inherit_logger_operand args =
     (case args of
        None \<Rightarrow> Raised (TypeError ''NoneType object is not subscriptable'')
      | Some d \<Rightarrow>
          (case map_of d ''inherit_logger'' of
             None \<Rightarrow> Raised (KeyError ''inherit_logger'')
           | Some v \<Rightarrow> keyIsTrue_one_argument v))"

text \<open>
  \<^verbatim>\<open>logging.Logger.setLevel\<close> checks the level first: an integer (a
  \<^verbatim>\<open>bool\<close> is one) is stored as it is, the name of a level is converted to its
  number, another string raises \<^verbatim>\<open>ValueError\<close>, and anything else raises
  \<^verbatim>\<open>TypeError\<close> (after \<^verbatim>\<open>str(level) == level\<close> was evaluated, which may raise
  itself).
\<close>

definition level_of_name :: "string \<Rightarrow> int option" where
  "level_of_name =
     map_of [(''CRITICAL'', 50), (''FATAL'', 50), (''ERROR'', 40), (''WARN'', 30),
             (''WARNING'', 30), (''INFO'', 20), (''DEBUG'', 10), (''NOTSET'', 0)]"

definition checkLevel :: "world \<Rightarrow> pyval \<Rightarrow> pyval outcome" where
  "checkLevel w level =
     (case level of
        PInt i \<Rightarrow> Returned (PInt i)
      | PBool b \<Rightarrow> Returned (PBool b)
      | PStr s \<Rightarrow>
          (case level_of_name s of
             Some n \<Rightarrow> Returned (PInt n)
           | None \<Rightarrow> Raised (ValueError (''Unknown level: '' @ s)))
      | _ \<Rightarrow>
          (case py_str w level of
             Raised e \<Rightarrow> Raised e
           | Returned _ \<Rightarrow> Raised (TypeError ''Level not an integer or a valid string'')))"

definition setLevel :: "pyval \<Rightarrow> pyval \<Rightarrow> unit effect" where
  "setLevel logger level w =
     (case logger of
        PLogger n \<Rightarrow>
          (case checkLevel w level of
             Raised e \<Rightarrow> (Raised e, w)
           | Returned l \<Rightarrow> (Returned (), w\<lparr>levels := AList.update n l (levels w)\<rparr>))
      | _ \<Rightarrow> (Raised (AttributeError ''object has no attribute setLevel''), w))"

definition dict_truthy :: "pydict option \<Rightarrow> bool" where
  "dict_truthy args = (case args of None \<Rightarrow> False | Some d \<Rightarrow> d \<noteq> [])"

text \<open>Line 207: \<^verbatim>\<open>self.args and "level" in self.args\<close>, then \<^verbatim>\<open>self.args["level"]\<close>.\<close>

definition configured_level :: "pydict option \<Rightarrow> pyval option" where
  "configured_level args = (case args of None \<Rightarrow> None | Some d \<Rightarrow> map_of d ''level'')"

text \<open>
  Lines 200 to 211, \<^verbatim>\<open>_init(instance, *args, **kws)\<close>. The condition of line 202 is
  \<^verbatim>\<open>A or B\<close>: \<^verbatim>\<open>B\<close> is evaluated only when \<^verbatim>\<open>A\<close> is false, that is when
  the instance has a truthy \<^verbatim>\<open>logger\<close>.
\<close>

definition init_condition :: "pydict option \<Rightarrow> pyval \<Rightarrow> world \<Rightarrow> bool outcome" where
  "init_condition args instance w =
     (if \<not> (case py_getattr w instance ''logger'' of Some lg \<Rightarrow> py_truthy w lg | None \<Rightarrow> False)
      then Returned True
      else (case inherit_logger_operand args of
              Raised e \<Rightarrow> Raised e
            | Returned b \<Rightarrow> Returned (\<not> b)))"

definition LogClass_init ::
  "pydict option \<Rightarrow> (pyval list \<Rightarrow> kwargs \<Rightarrow> pyval effect) option \<Rightarrow> pyval list \<Rightarrow> kwargs \<Rightarrow> pyval effect" where
  "LogClass_init args original_init pargs kws w =
     (case pargs of
        [] \<Rightarrow> (Raised (TypeError ''_init() missing 1 required positional argument: instance''), w)
      | instance # rest \<Rightarrow>
          (case init_condition args instance w of
             Raised e \<Rightarrow> (Raised e, w)
           | Returned c \<Rightarrow>
               (case (if c then
                        py_setattr instance ''logger''
                          (getLogger (fst (py_class w instance) @ ''.'' @ snd (py_class w instance))) w
                      else (Returned (), w)) of
                  (Raised e, w1) \<Rightarrow> (Raised e, w1)
                | (Returned _, w1) \<Rightarrow>
                    (case (case configured_level args of
                             Some level \<Rightarrow>
                               (case py_getattr w1 instance ''logger'' of
                                  None \<Rightarrow> (Raised (AttributeError ''object has no attribute logger''), w1)
                                | Some lg \<Rightarrow> setLevel lg level w1)
                           | None \<Rightarrow> (Returned (), w1)) of
                       (Raised e, w2) \<Rightarrow> (Raised e, w2)
                     | (Returned _, w2) \<Rightarrow>
                         (case original_init of
                            None \<Rightarrow> (Returned PNone, w2)
                          | Some init \<Rightarrow>
                              (case init (instance # rest) kws w2 of
                                 (Raised e, w3) \<Rightarrow> (Raised e, w3)
                               | (Returned _, w3) \<Rightarrow> (Returned PNone, w3)))))))"

text \<open>
  Calling what a class attribute holds from a caller frame. \<^verbatim>\<open>wrapped_f(*args)\<close> has
  no keyword parameter, so Python refuses a keyword argument before the body runs. The
  wrapped object is called from line 76, the original constructor from line 211 when
  \<^verbatim>\<open>self.original_init\<close> is truthy; its truth value does not depend on what
  \<^verbatim>\<open>_init\<close> does before. A value is not callable. A \<^verbatim>\<open>LogClass\<close> object is
  \<^verbatim>\<open>__call__(self, klas)\<close>: Python refuses any other number of arguments, and on
  one argument that is not a class the call fails with \<^verbatim>\<open>AttributeError\<close>, at the
  latest in \<^verbatim>\<open>inspect.getmro\<close>. Class objects are values known by name only, so
  a \<^verbatim>\<open>LogClass\<close> object called on a class, and the attribute that line 189 may
  set on a heap object before the call fails, are outside this model.
\<close>

definition init_truthy :: "world \<Rightarrow> callable option \<Rightarrow> bool" where
  "init_truthy w original_init =
     (case original_init of None \<Rightarrow> False | Some (Value v) \<Rightarrow> py_truthy w v | Some _ \<Rightarrow> True)"

primrec invoke :: "callable \<Rightarrow> frame option \<Rightarrow> pyval list \<Rightarrow> kwargs \<Rightarrow> pyval effect" where
  "invoke (Fn f) = (\<lambda>caller args kw. fn_body f args kw)"
| "invoke (Wrapped self c) =
     (\<lambda>caller args kw w.
        if kw \<noteq> [] then
          (Raised (TypeError ''wrapped_f() got an unexpected keyword argument''), w)
        else
          wrapped_f self
            (callable_fn w c (invoke c (Some \<lparr>co_filename = log_py, f_lineno = 76\<rparr>)))
            caller args w)"
| "invoke (BoundInit args original_init) =
     (\<lambda>caller pargs kws w.
        LogClass_init args
          (if init_truthy w original_init then
             map_option (\<lambda>c. invoke c (Some \<lparr>co_filename = log_py, f_lineno = 211\<rparr>)) original_init
           else None)
          pargs kws w)"
| "invoke (Binder args) =
     (\<lambda>caller pargs kws w.
        if length pargs = 1 \<and> kws = [] then
          (Raised (AttributeError ''object has no attribute __mro__''), w)
        else (Raised (TypeError ''__call__() takes 2 positional arguments''), w))"
| "invoke (Value v) =
     (\<lambda>caller pargs kws w. (Raised (TypeError ''object is not callable''), w))"

subsection \<open>Classes and \<^verbatim>\<open>LogClass.__call__\<close>, lines 181 to 215\<close>

text \<open>
  A class: its module, its name and its own \<^verbatim>\<open>__dict__\<close>. A class is handed over
  with the classes after it in its method resolution order, nearest first:
  \<^verbatim>\<open>getattr\<close> on a class finds the first entry along it, and
  \<^verbatim>\<open>inspect.getmro(klas)[1]\<close> is the head of that list.
\<close>

record klass =
  k_module :: string
  k_name :: string
  k_dict :: "(string \<times> callable) list"

fun class_getattr :: "klass list \<Rightarrow> string \<Rightarrow> callable option" where
  "class_getattr [] key = None"
| "class_getattr (k # ks) key =
     (case map_of (k_dict k) key of Some a \<Rightarrow> Some a | None \<Rightarrow> class_getattr ks key)"

definition class_setattr :: "klass \<Rightarrow> string \<Rightarrow> callable \<Rightarrow> klass" where
  "class_setattr klas key a = klas\<lparr>k_dict := AList.update key a (k_dict klas)\<rparr>"

text \<open>
  Lines 195 to 198, the body of the loop over the parent's own \<^verbatim>\<open>__dict__\<close>.
  \<open>mro\<close> is the parent followed by its ancestors. Whatever the class has under the
  key is wrapped unless it carries \<^verbatim>\<open>__loghook__\<close>; there is no test that it can
  be called.
\<close>

definition rewrap_member :: "world \<Rightarrow> klass list \<Rightarrow> string \<Rightarrow> klass \<Rightarrow> klass outcome" where
  "rewrap_member w mro key klas =
     (case class_getattr mro key of
        None \<Rightarrow> Raised (AttributeError (''type object has no attribute '' @ key))
      | Some fn \<Rightarrow>
          (case subdecorate_of w fn of
             None \<Rightarrow> Returned klas
           | Some marker \<Rightarrow>
               (case class_getattr (klas # mro) key of
                  None \<Rightarrow> Returned klas
                | Some c \<Rightarrow>
                    if has_loghook w c then Returned klas
                    else (case marker of
                            Raised e \<Rightarrow> Raised e
                          | Returned d \<Rightarrow> Returned (class_setattr klas key (hook d c))))))"

fun rewrap_loop :: "world \<Rightarrow> klass list \<Rightarrow> string list \<Rightarrow> klass \<Rightarrow> klass outcome" where
  "rewrap_loop w mro [] klas = Returned klas"
| "rewrap_loop w mro (key # keys) klas =
     (case rewrap_member w mro key klas of
        Raised e \<Rightarrow> Raised e
      | Returned klas' \<Rightarrow> rewrap_loop w mro keys klas')"

text \<open>
  \<^verbatim>\<open>LogClass.__call__\<close>: the result is \<^verbatim>\<open>self.args\<close> as the call leaves it and
  the decorated class.
\<close>

definition LogClass_call ::
  "world \<Rightarrow> pydict option \<Rightarrow> klass \<Rightarrow> klass list \<Rightarrow> (pydict option \<times> klass) outcome" where
  "LogClass_call w args klas mro =
     (let original_init = class_getattr (klas # mro) ''__init__'';
          klas1 =
            (if keyIsTrue args ''subdecorate'' then class_setattr klas ''__subdecorate__'' (Binder args)
             else klas)
      in case mro of
           [] \<Rightarrow> Raised (IndexError ''tuple index out of range'')
         | parent # _ \<Rightarrow>
             (case (if (case class_getattr mro ''__loghook__'' of
                          None \<Rightarrow> False | Some h \<Rightarrow> True) \<and> \<not> dict_truthy args then
                      (case class_getattr mro ''__loghook__'' of
                         Some (Binder pargs) \<Rightarrow> Returned pargs
                       | _ \<Rightarrow> Raised (AttributeError ''object has no attribute args''))
                    else Returned args) of
                Raised e \<Rightarrow> Raised e
              | Returned args' \<Rightarrow>
                  (case (if (case class_getattr mro ''__subdecorate__'' of
                               None \<Rightarrow> False | Some h \<Rightarrow> True) then
                           rewrap_loop w mro (map fst (k_dict parent)) klas1
                         else Returned klas1) of
                     Raised e \<Rightarrow> Raised e
                   | Returned klas2 \<Rightarrow>
                       (let klas3 = class_setattr klas2 ''__init__'' (BoundInit args' original_init)
                        in Returned (args', class_setattr klas3 ''__loghook__'' (Binder args'))))))"

section \<open>What the specification says a record shows\<close>

text \<open>
  The specification's wording of the truncation rule, to be compared with
  \<^verbatim>\<open>toShortStr\<close>: a value is shown by its display string when that has at most the
  maximum length, and by its type otherwise. The type is shown as Python prints a type
  object, the name between \<^verbatim>\<open><class '\<close> and \<^verbatim>\<open>'>\<close>, with its module unless that
  is \<^verbatim>\<open>builtins\<close>.
\<close>

definition type_shown :: "world \<Rightarrow> pyval \<Rightarrow> string" where
  "type_shown w v =
     ''<class '' @ [CHR 0x27] @
     (if fst (py_class w v) = ''builtins'' then snd (py_class w v)
      else fst (py_class w v) @ ''.'' @ snd (py_class w v)) @
     [CHR 0x27] @ ''>''"

definition shown :: "world \<Rightarrow> nat \<Rightarrow> pyval \<Rightarrow> string" where
  "shown w mx v = (if length (toStr w v) \<le> mx then toStr w v else type_shown w v)"

section \<open>Example programs\<close>

definition plain_object :: pyobj where
  "plain_object =
     \<lparr>obj_module = ''builtins'', obj_class = ''object'', obj_attrs = [],
      obj_str = Returned ''<object>'', obj_truthy = True\<rparr>"

definition w0 :: world where
  "w0 =
     \<lparr>heap = (\<lambda>_. plain_object), emitted = [], levels = [],
      logger_repr = (\<lambda>n. ''<Logger '' @ n @ '' (DEBUG)>''),
      relpath = (\<lambda>p. if p = [] then Raised (ValueError ''no path specified'') else Returned p)\<rparr>"

definition call_site :: frame where
  "call_site = \<lparr>co_filename = ''main.py'', f_lineno = 12\<rparr>"

text \<open>An instance of a class of module \<^verbatim>\<open>app\<close>, and the world holding it at address 0.\<close>

definition instance_of :: "string \<Rightarrow> pydict \<Rightarrow> pyobj" where
  "instance_of cls attrs =
     \<lparr>obj_module = ''app'', obj_class = cls, obj_attrs = attrs,
      obj_str = Returned (''<app.'' @ cls @ '' object>''), obj_truthy = True\<rparr>"

definition world_with :: "pyobj \<Rightarrow> world" where
  "world_with obj = w0\<lparr>heap := (heap w0)(0 := obj)\<rparr>"

text \<open>
  \<^verbatim>\<open>def compute(x, y)\<close>: returns \<^verbatim>\<open>x+y\<close>, raises \<^verbatim>\<open>ValueError("bad")\<close> when
  \<^verbatim>\<open>y==0\<close>.
\<close>

definition ValueError_bad :: pyexc where
  "ValueError_bad = PyExc ''ValueError'' ''bad'' True True"

definition compute :: pyfn where
  "compute =
     \<lparr>fn_module = ''app'', fn_class = ''function'', fn_name = Returned ''compute'',
      fn_body = (\<lambda>args kw w.
        case args of
          [PInt x, PInt y] \<Rightarrow>
            if y = 0 then (Raised ValueError_bad, w) else (Returned (PInt (x + y)), w)
        | _ \<Rightarrow> (Raised (TypeError ''compute() takes 2 positional arguments''), w))\<rparr>"

text \<open>Methods of one parameter \<^verbatim>\<open>self\<close>: one returns 7, one raises the exception given.\<close>

definition seven :: pyfn where
  "seven =
     \<lparr>fn_module = ''app'', fn_class = ''function'', fn_name = Returned ''seven'',
      fn_body = (\<lambda>args kw w. (Returned (PInt 7), w))\<rparr>"

definition failing :: "pyexc \<Rightarrow> pyfn" where
  "failing e =
     \<lparr>fn_module = ''app'', fn_class = ''function'', fn_name = Returned ''failing'',
      fn_body = (\<lambda>args kw w. (Raised e, w))\<rparr>"

text \<open>A function that accepts keyword arguments and returns how many it was given.\<close>

definition count_kw :: pyfn where
  "count_kw =
     \<lparr>fn_module = ''app'', fn_class = ''function'', fn_name = Returned ''count_kw'',
      fn_body = (\<lambda>args kw w. (Returned (PInt (int (length kw))), w))\<rparr>"

text \<open>The class \<^verbatim>\<open>object\<close> and its \<^verbatim>\<open>__init__\<close>.\<close>

definition object_init :: pyfn where
  "object_init =
     \<lparr>fn_module = ''builtins'', fn_class = ''wrapper_descriptor'', fn_name = Returned ''__init__'',
      fn_body = (\<lambda>args kw w.
        case args of
          [instance] \<Rightarrow> (Returned PNone, w)
        | _ \<Rightarrow> (Raised (TypeError ''object.__init__() takes exactly one argument''), w))\<rparr>"

definition object_class :: klass where
  "object_class =
     \<lparr>k_module = ''builtins'', k_name = ''object'', k_dict = [(''__init__'', Fn object_init)]\<rparr>"

text \<open>
  An exception whose class defines \<^verbatim>\<open>__bool__\<close> to return \<^verbatim>\<open>False\<close>, a
  method that returns 8, a policy that asks for propagation, and a traced policy with
  the world of an instance whose \<^verbatim>\<open>state\<close> it shows.
\<close>

definition Quiet :: pyexc where
  "Quiet = PyExc ''Quiet'' [] True False"

definition eight :: pyfn where
  "eight =
     \<lparr>fn_module = ''app'', fn_class = ''function'', fn_name = Returned ''eight'',
      fn_body = (\<lambda>args kw w. (Returned (PInt 8), w))\<rparr>"

definition sub_policy :: pydict where
  "sub_policy = [(''subdecorate'', PBool True)]"

definition job_policy :: pydict where
  "job_policy = [(''tracename'', PStr ''job''), (''traceattr'', PStr ''state'')]"

definition job_world :: world where
  "job_world = world_with (instance_of ''Job'' [(''logger'', PLogger ''app.Job''), (''state'', PInt 3)])"

text \<open>The policy \<^verbatim>\<open>{"inherit_logger": True}\<close>.\<close>

definition inherit_policy :: pydict where
  "inherit_policy = [(''inherit_logger'', PBool True)]"

text \<open>
  The classes of the propagation scenario. \<^verbatim>\<open>T\<close> declares \<^verbatim>\<open>m\<close> wrapped by
  \<^verbatim>\<open>LogCall({"subdecorate": True})\<close> and is decorated by
  \<^verbatim>\<open>LogClass({"subdecorate": True})\<close>; \<^verbatim>\<open>S(T)\<close> overrides \<^verbatim>\<open>m\<close> with a plain
  function, defines an \<^verbatim>\<open>__init__\<close> of its own that does nothing, and is decorated
  by \<^verbatim>\<open>LogClass()\<close>. \<open>class_T\<close> and \<open>class_S1\<close> are the two classes after
  decoration. \<^verbatim>\<open>U(T)\<close> is a class that is not decorated and does not mention
  \<^verbatim>\<open>m\<close>, and \<^verbatim>\<open>V(U)\<close> has the body of \<^verbatim>\<open>S\<close>. \<^verbatim>\<open>N(T)\<close> overrides
  \<^verbatim>\<open>m\<close> with a callable object that has no \<^verbatim>\<open>__name__\<close>.
\<close>

definition own_init :: pyfn where
  "own_init =
     \<lparr>fn_module = ''app'', fn_class = ''function'', fn_name = Returned ''__init__'',
      fn_body = (\<lambda>args kw w. (Returned PNone, w))\<rparr>"

definition nameless :: pyfn where
  "nameless =
     \<lparr>fn_module = ''functools'', fn_class = ''partial'',
      fn_name = Raised (AttributeError ''object has no attribute __name__''),
      fn_body = (\<lambda>args kw w. (Returned (PInt 8), w))\<rparr>"

definition class_T0 :: klass where
  "class_T0 = \<lparr>k_module = ''app'', k_name = ''T'',
     k_dict = [(''m'', hook (LogCall (Some sub_policy)) (Fn seven))]\<rparr>"

definition class_T :: klass where
  "class_T = \<lparr>k_module = ''app'', k_name = ''T'',
     k_dict = [(''m'', hook (LogCall (Some sub_policy)) (Fn seven)),
               (''__subdecorate__'', Binder (Some sub_policy)),
               (''__init__'', BoundInit (Some sub_policy) (Some (Fn object_init))),
               (''__loghook__'', Binder (Some sub_policy))]\<rparr>"

definition class_S0 :: klass where
  "class_S0 = \<lparr>k_module = ''app'', k_name = ''S'',
     k_dict = [(''m'', Fn eight), (''__init__'', Fn own_init)]\<rparr>"

definition class_S1 :: klass where
  "class_S1 = \<lparr>k_module = ''app'', k_name = ''S'',
     k_dict = [(''m'', hook (LogCall (Some sub_policy)) (Fn eight)),
               (''__init__'', BoundInit (Some sub_policy) (Some (Fn own_init))),
               (''__loghook__'', Binder (Some sub_policy))]\<rparr>"

definition class_U :: klass where
  "class_U = \<lparr>k_module = ''app'', k_name = ''U'', k_dict = [(''__module__'', Value (PStr ''app''))]\<rparr>"

definition class_V0 :: klass where
  "class_V0 = \<lparr>k_module = ''app'', k_name = ''V'',
     k_dict = [(''m'', Fn eight), (''__init__'', Fn own_init)]\<rparr>"

definition class_N0 :: klass where
  "class_N0 = \<lparr>k_module = ''app'', k_name = ''N'',
     k_dict = [(''m'', Fn nameless), (''__init__'', Fn own_init)]\<rparr>"

section \<open>Evaluation and helper lemmas\<close>

lemmas model_defs =
  wrapped_f_def select_logger_def guarded_call_def traced_def caught_def report_def finally_block_def
  trace_in_def trace_out_def trace_event_def trace_configured_def haskey_def keyIsTrue_def eq_True_def
  LogCall_def LogCallBase_def LogCall_log_f_def LogCallBase_log_f_def
  toShortStr_def toStr_def default_max_def py_str_def py_type_def py_class_def py_truthy_def
  py_getattr_def hasattr_def py_setattr_def getLogger_def inspect_isclass_def str_int_def
  TypeError_def AttributeError_def KeyError_def IndexError_def ValueError_def

lemmas example_defs =
  w0_def plain_object_def call_site_def instance_of_def world_with_def ValueError_bad_def
  compute_def seven_def failing_def count_kw_def object_init_def object_class_def
  job_world_def job_policy_def sub_policy_def eight_def Quiet_def

lemma select_logger_classfn: "fst (select_logger fn args w) = (args \<noteq> [])"
  by (cases args) (simp_all add: select_logger_def inspect_isclass_def py_type_def)

lemma guarded_call_steps:
  assumes tin: "traced trace_in self classfn logger args w = (Returned (), w1)"
    and body: "fn_body fn args [] w1 = (out, w2)"
  shows "guarded_call self fn classfn logger args w =
     (case out of
        Raised e \<Rightarrow> (caught e, w2)
      | Returned v \<Rightarrow>
          (case traced trace_out self classfn logger args w2 of
             (Raised e, w3) \<Rightarrow> (caught e, w3)
           | (Returned _, w3) \<Rightarrow> (Settled v None, w3)))"
  using assms by (simp add: guarded_call_def split: outcome.splits)

lemma wrapped_f_settled:
  "select_logger fn args w = (classfn, logger) \<Longrightarrow>
   guarded_call self fn classfn logger args w = (Settled result err, w1) \<Longrightarrow>
   wrapped_f self fn caller args w = report self logger fn caller args result err w1"
  by (simp add: wrapped_f_def)






lemma report_hook_cong:
  assumes "\<And>lg fr f a r w'. h1 lg fr f a [] r w' = h2 lg fr f a [] r w'"
  shows "report (self\<lparr>dlog_f := h1\<rparr>) logger fn caller args result err w =
         report (self\<lparr>dlog_f := h2\<rparr>) logger fn caller args result err w"
  by (cases caller) (simp_all add: report_def assms)

lemma guarded_call_hook_irrelevant:
  "guarded_call (self\<lparr>dlog_f := h\<rparr>) fn classfn logger args w =
   guarded_call self fn classfn logger args w"
proof -
  have "trace_event l k (self\<lparr>dlog_f := h\<rparr>) = trace_event l k self" for l k
    by (intro ext) (simp add: trace_event_def trace_configured_def)
  then have "trace_in (self\<lparr>dlog_f := h\<rparr>) = trace_in self"
    and "trace_out (self\<lparr>dlog_f := h\<rparr>) = trace_out self"
    by (simp_all add: trace_in_def trace_out_def)
  then have t: "traced trace_in (self\<lparr>dlog_f := h\<rparr>) = traced trace_in self"
    "traced trace_out (self\<lparr>dlog_f := h\<rparr>) = traced trace_out self"
    by (auto simp: traced_def fun_eq_iff split: list.splits)
  show ?thesis
    unfolding guarded_call_def t by (rule refl)
qed

lemmas class_defs =
  LogClass_call_def rewrap_member_def subdecorate_of_def has_loghook_def hook_def class_setattr_def
  dict_truthy_def init_truthy_def LogClass_init_def init_condition_def configured_level_def
  inherit_logger_operand_def keyIsTrue_one_argument_def callable_fn_def callable_module_def
  callable_class_def callable_name_def

lemmas class_example_defs =
  class_T0_def class_T_def class_S0_def class_S1_def class_U_def class_V0_def
  class_N0_def own_init_def nameless_def inherit_policy_def

lemma map_of_class_setattr:
  "map_of (k_dict (class_setattr k key a)) m = (if m = key then Some a else map_of (k_dict k) m)"
  by (simp add: class_setattr_def update_conv')

lemma rewrap_member_other:
  "rewrap_member w mro key k = Returned k' \<Longrightarrow> key \<noteq> m \<Longrightarrow>
   map_of (k_dict k') m = map_of (k_dict k) m"
  by (auto simp: rewrap_member_def map_of_class_setattr
           split: option.splits outcome.splits if_splits)

lemma rewrap_member_hit:
  assumes "class_getattr mro m = Some fn" and "subdecorate_of w fn = Some (Returned d)"
    and "map_of (k_dict k) m = Some c" and "\<not> has_loghook w c"
  shows "rewrap_member w mro m k = Returned (class_setattr k m (hook d c))"
  using assms by (simp add: rewrap_member_def)

lemma rewrap_member_kept:
  assumes "map_of (k_dict k) m = Some (hook d c)" and "rewrap_member w mro key k = Returned k'"
  shows "map_of (k_dict k') m = Some (hook d c)"
proof (cases "key = m")
  case True
  with assms show ?thesis
    by (auto simp: rewrap_member_def has_loghook_def hook_def
             split: option.splits outcome.splits if_splits)
next
  case False
  with assms show ?thesis by (simp add: rewrap_member_other)
qed

lemma rewrap_loop_kept:
  "map_of (k_dict k) m = Some (hook d c) \<Longrightarrow> rewrap_loop w mro keys k = Returned k' \<Longrightarrow>
   map_of (k_dict k') m = Some (hook d c)"
proof (induction keys arbitrary: k)
  case Nil
  then show ?case by simp
next
  case (Cons key keys)
  from Cons.prems(2) obtain k1 where s: "rewrap_member w mro key k = Returned k1"
    and r: "rewrap_loop w mro keys k1 = Returned k'"
    by (auto split: outcome.splits)
  from rewrap_member_kept [OF Cons.prems(1) s] r show ?case
    by (rule Cons.IH)
qed

lemma rewrap_loop_hit:
  assumes "class_getattr mro m = Some fn" and "subdecorate_of w fn = Some (Returned d)"
    and "\<not> has_loghook w c"
  shows "map_of (k_dict k) m = Some c \<Longrightarrow> m \<in> set keys \<Longrightarrow>
   rewrap_loop w mro keys k = Returned k' \<Longrightarrow> map_of (k_dict k') m = Some (hook d c)"
proof (induction keys arbitrary: k)
  case Nil
  then show ?case by simp
next
  case (Cons key keys)
  from Cons.prems(3) obtain k1 where s: "rewrap_member w mro key k = Returned k1"
    and r: "rewrap_loop w mro keys k1 = Returned k'"
    by (auto split: outcome.splits)
  show ?case
  proof (cases "key = m")
    case True
    with s rewrap_member_hit [OF assms(1,2) Cons.prems(1) assms(3)]
    have "k1 = class_setattr k m (hook d c)" by simp
    then have "map_of (k_dict k1) m = Some (hook d c)"
      by (simp add: map_of_class_setattr)
    from rewrap_loop_kept [OF this r] show ?thesis .
  next
    case False
    with Cons.prems have "m \<in> set keys" by auto
    moreover from False Cons.prems(1) rewrap_member_other [OF s]
    have "map_of (k_dict k1) m = Some c" by simp
    ultimately show ?thesis
      using Cons.IH r by simp
  qed
qed

lemma rewrap_member_present:
  "rewrap_member w mro key k = Returned k' \<Longrightarrow> map_of (k_dict k) x \<noteq> None \<Longrightarrow>
   map_of (k_dict k') x \<noteq> None"
  by (auto simp: rewrap_member_def map_of_class_setattr
           split: option.splits outcome.splits if_splits)

lemma rewrap_loop_present:
  "rewrap_loop w mro keys k = Returned k' \<Longrightarrow> map_of (k_dict k) x \<noteq> None \<Longrightarrow>
   map_of (k_dict k') x \<noteq> None"
proof (induction keys arbitrary: k)
  case Nil
  then show ?case by simp
next
  case (Cons key keys)
  from Cons.prems(1) obtain k1 where s: "rewrap_member w mro key k = Returned k1"
    and r: "rewrap_loop w mro keys k1 = Returned k'"
    by (auto split: outcome.splits)
  from Cons.IH [OF r rewrap_member_present [OF s Cons.prems(2)]] show ?case .
qed

lemma LogClass_call_shape:
  assumes "LogClass_call w args klas mro = Returned (args', klas')"
  shows "\<exists>klas2 parent rest.
     mro = parent # rest \<and>
     klas' = class_setattr (class_setattr klas2 ''__init__''
               (BoundInit args' (class_getattr (klas # mro) ''__init__''))) ''__loghook__'' (Binder args') \<and>
     (if class_getattr mro ''__subdecorate__'' \<noteq> None
      then rewrap_loop w mro (map fst (k_dict parent))
             (if keyIsTrue args ''subdecorate''
              then class_setattr klas ''__subdecorate__'' (Binder args) else klas)
      else Returned (if keyIsTrue args ''subdecorate''
                     then class_setattr klas ''__subdecorate__'' (Binder args) else klas)) =
     Returned klas2"
proof -
  from assms obtain parent rest where mro: "mro = parent # rest"
    by (cases mro) (simp_all add: LogClass_call_def Let_def)
  have c: "(case x of None \<Rightarrow> False | Some h \<Rightarrow> True) = (x \<noteq> None)" for x :: "callable option"
    by (cases x) simp_all
  from assms mro show ?thesis
    unfolding LogClass_call_def Let_def c
    by (simp split: outcome.splits if_splits option.splits callable.splits)
qed

lemma LogClass_call_subdecorate:
  assumes "LogClass_call w args klas mro = Returned (args', klas')"
    and "keyIsTrue args ''subdecorate''"
  shows "map_of (k_dict klas') ''__subdecorate__'' \<noteq> None"
proof -
  let ?klas1 = "class_setattr klas ''__subdecorate__'' (Binder args)"
  have p: "map_of (k_dict ?klas1) ''__subdecorate__'' \<noteq> None"
    by (simp add: map_of_class_setattr)
  from LogClass_call_shape [OF assms(1)] obtain klas2 parent rest where
    mro: "mro = parent # rest" and
    k': "klas' = class_setattr (class_setattr klas2 ''__init__''
               (BoundInit args' (class_getattr (klas # mro) ''__init__''))) ''__loghook__'' (Binder args')"
    and l0: "(if class_getattr mro ''__subdecorate__'' \<noteq> None
      then rewrap_loop w mro (map fst (k_dict parent))
             (if keyIsTrue args ''subdecorate''
              then class_setattr klas ''__subdecorate__'' (Binder args) else klas)
      else Returned (if keyIsTrue args ''subdecorate''
                     then class_setattr klas ''__subdecorate__'' (Binder args) else klas)) =
     Returned klas2"
    by (elim exE conjE)
  from l0 assms(2) have l: "(if class_getattr mro ''__subdecorate__'' \<noteq> None
      then rewrap_loop w mro (map fst (k_dict parent)) ?klas1 else Returned ?klas1) = Returned klas2"
    by (auto split: if_splits)
  have "map_of (k_dict klas2) ''__subdecorate__'' \<noteq> None"
  proof (cases "class_getattr mro ''__subdecorate__'' = None")
    case True
    with l p show ?thesis by simp
  next
    case False
    with l have "rewrap_loop w mro (map fst (k_dict parent)) ?klas1 = Returned klas2"
      by simp
    from rewrap_loop_present [OF this p] show ?thesis .
  qed
  then show ?thesis
    unfolding k' by (simp add: map_of_class_setattr)
qed

section \<open>The claims\<close>




text \<open>
  C2. Which error the caller sees when both the callable and the formatting hook
  fail (lines 82 to 98). The comment on line 58 announces that exceptions are reported
  before they are let through, and the claim is that the exception of the callable is
  the one raised again. Line 91 assigns the exception of \<^verbatim>\<open>log_f\<close> to
  \<^verbatim>\<open>err\<close> without looking at the old value, and line 96 raises \<^verbatim>\<open>err\<close>: when
  the callable raised an \<^verbatim>\<open>Exception\<close> and \<^verbatim>\<open>log_f\<close>, called with the
  sentinel, raises a truthy \<^verbatim>\<open>Exception\<close>, the caller sees the exception of
  \<^verbatim>\<open>log_f\<close> and the exception of the callable is lost.
\<close>

theorem hook_failure_masks_original:
  assumes sl: "select_logger fn args w = (classfn, logger)"
    and tin: "traced trace_in self classfn logger args w = (Returned (), w1)"
    and body: "fn_body fn args [] w1 = (Raised e1, w2)"
    and exc: "exc_is_Exception e1"
    and hook: "dlog_f self logger fr fn args [] (PStr ''CRASHED'') w2 = (Raised e2, w3)"
    and exc2: "exc_is_Exception e2" "exc_truthy e2"
  shows "wrapped_f self fn (Some fr) args w = (Raised e2, w3)"
proof -
  have "guarded_call self fn classfn logger args w = (Settled (PStr ''CRASHED'') (Some e1), w2)"
    using exc by (simp add: guarded_call_steps [OF tin body] caught_def)
  from wrapped_f_settled [OF sl this] hook exc2 show ?thesis
    by (simp add: report_def finally_block_def)
qed

theorem masked_error_witness:
  "fst (fn_body (failing ValueError_bad) [PRef 0] []
          (world_with (instance_of ''Widget'' [(''logger'', PNone)]))) = Raised ValueError_bad \<and>
   wrapped_f (LogCall None) (failing ValueError_bad) (Some call_site) [PRef 0]
     (world_with (instance_of ''Widget'' [(''logger'', PNone)])) =
     (Raised (AttributeError ''object has no attribute debug''),
      world_with (instance_of ''Widget'' [(''logger'', PNone)]))"
proof -
  let ?w = "world_with (instance_of ''Widget'' [(''logger'', PNone)])"
  have sl: "select_logger (failing ValueError_bad) [PRef 0] ?w = (True, PNone)"
    by (simp add: model_defs example_defs)
  have tin: "traced trace_in (LogCall None) True PNone [PRef 0] ?w = (Returned (), ?w)"
    by (simp add: model_defs)
  have body: "fn_body (failing ValueError_bad) [PRef 0] [] ?w = (Raised ValueError_bad, ?w)"
    by (simp add: failing_def)
  have exc: "exc_is_Exception ValueError_bad"
    by (simp add: ValueError_bad_def)
  have hook: "dlog_f (LogCall None) PNone call_site (failing ValueError_bad) [PRef 0] []
      (PStr ''CRASHED'') ?w = (Raised (AttributeError ''object has no attribute debug''), ?w)"
    by (simp add: LogCall_def LogCall_log_f_def Let_def)
  have exc2: "exc_is_Exception (AttributeError ''object has no attribute debug'')"
    "exc_truthy (AttributeError ''object has no attribute debug'')"
    by (simp_all add: AttributeError_def)
  from hook_failure_masks_original [OF sl tin body exc hook exc2] body
  show ?thesis by simp
qed

text \<open>
  C3. Inheriting the logger. The claim is about a decorated constructor that runs
  on an instance whose \<^verbatim>\<open>logger\<close> an earlier constructor has already set, under a
  policy with \<^verbatim>\<open>inherit_logger\<close>: it should leave that logger in place, as the
  comment on line 201 announces. Line 203 hands the value of the option to
  \<^verbatim>\<open>keyIsTrue\<close> as its only argument, so with the option present (true or false)
  the constructor raises \<^verbatim>\<open>TypeError\<close> before it keeps or sets anything, and the
  original constructor is not run. The witness is the construction of an instance of
  a decorated subclass of a decorated class, both with policy
  \<^verbatim>\<open>{"inherit_logger": True}\<close>.
\<close>

theorem inherited_logger_not_kept:
  assumes "py_getattr w instance ''logger'' = Some lg" and "py_truthy w lg"
    and "map_of d ''inherit_logger'' = Some v"
  shows "LogClass_init (Some d) original_init (instance # rest) kws w =
     (Raised (TypeError ''keyIsTrue() missing 1 required positional argument: key''), w)"
  using assms
  by (simp add: LogClass_init_def init_condition_def inherit_logger_operand_def
        keyIsTrue_one_argument_def)

theorem inherited_logger_witness:
  "invoke (BoundInit (Some inherit_policy)
             (Some (BoundInit (Some inherit_policy) (Some (Fn object_init)))))
          (Some call_site) [PRef 0] [] (world_with (instance_of ''S'' [])) =
     (Raised (TypeError ''keyIsTrue() missing 1 required positional argument: key''),
      world_with (instance_of ''S'' [(''logger'', PLogger ''app.S'')]))"
proof -
  let ?w = "world_with (instance_of ''S'' [])"
  let ?w1 = "world_with (instance_of ''S'' [(''logger'', PLogger ''app.S'')])"
  have a: "py_getattr ?w1 (PRef 0) ''logger'' = Some (PLogger ''app.S'')"
    by (simp add: py_getattr_def world_with_def instance_of_def)
  have b: "py_truthy ?w1 (PLogger ''app.S'')"
    by (simp add: py_truthy_def)
  have c: "map_of inherit_policy ''inherit_logger'' = Some (PBool True)"
    by (simp add: inherit_policy_def)
  have s: "py_setattr (PRef 0) ''logger'' (PLogger ''app.S'') ?w = (Returned (), ?w1)"
    by (simp add: py_setattr_def world_with_def instance_of_def w0_def)
  from inherited_logger_not_kept [OF a b c, where rest = "[]" and kws = "[]"]
  show ?thesis
    using s
    by (simp add: LogClass_init_def init_condition_def py_getattr_def py_class_def getLogger_def
          configured_level_def inherit_policy_def init_truthy_def world_with_def instance_of_def
          w0_def)
qed

text \<open>
  C4. The lookup of \<^verbatim>\<open>inherit_logger\<close> on line 203 is not a safe check. Whenever
  the instance already carries a truthy \<^verbatim>\<open>logger\<close>, the constructor raises before
  doing anything: \<^verbatim>\<open>TypeError\<close> for a policy \<^verbatim>\<open>None\<close>, \<^verbatim>\<open>KeyError\<close> for a
  policy without the key, and \<^verbatim>\<open>TypeError\<close> again when the key is there, since
  \<^verbatim>\<open>keyIsTrue\<close> is called with one argument. The witness is the construction of an
  instance of a decorated subclass of a decorated class with policy
  \<^verbatim>\<open>{"subdecorate": True}\<close>.
\<close>

theorem inherit_logger_lookup_raises:
  assumes "py_getattr w instance ''logger'' = Some lg" and "py_truthy w lg"
  shows "LogClass_init args original_init (instance # rest) kws w =
     (Raised (case args of
                None \<Rightarrow> TypeError ''NoneType object is not subscriptable''
              | Some d \<Rightarrow>
                  (case map_of d ''inherit_logger'' of
                     None \<Rightarrow> KeyError ''inherit_logger''
                   | Some v \<Rightarrow> TypeError ''keyIsTrue() missing 1 required positional argument: key'')),
      w)"
  using assms
  by (simp add: LogClass_init_def init_condition_def inherit_logger_operand_def
        keyIsTrue_one_argument_def split: option.splits)

theorem inherit_logger_witness:
  "fst (invoke (BoundInit (Some sub_policy) (Some (BoundInit (Some sub_policy) (Some (Fn object_init)))))
          (Some call_site) [PRef 0] [] (world_with (instance_of ''S'' []))) =
     Raised (KeyError ''inherit_logger'')"
proof -
  let ?w = "world_with (instance_of ''S'' [])"
  let ?w1 = "world_with (instance_of ''S'' [(''logger'', PLogger ''app.S'')])"
  have a: "py_getattr ?w1 (PRef 0) ''logger'' = Some (PLogger ''app.S'')"
    by (simp add: py_getattr_def world_with_def instance_of_def)
  have b: "py_truthy ?w1 (PLogger ''app.S'')"
    by (simp add: py_truthy_def)
  have s: "snd (py_setattr (PRef 0) ''logger'' (PLogger ''app.S'') ?w) = ?w1"
    by (simp add: py_setattr_def world_with_def instance_of_def w0_def)
  from inherit_logger_lookup_raises [OF a b, of "Some sub_policy" _ "[]" "[]"]
  show ?thesis
    using s
    by (simp add: LogClass_init_def init_condition_def py_getattr_def py_class_def getLogger_def
          configured_level_def sub_policy_def py_setattr_def world_with_def instance_of_def w0_def
          init_truthy_def)
qed

text \<open>
  C5. Propagation of wrapping. \<^verbatim>\<open>T\<close> is the result of decorating a class with
  \<^verbatim>\<open>subdecorate\<close> true, its own member \<^verbatim>\<open>m\<close> carries the propagation marker of
  decorator \<open>d\<close>, and \<^verbatim>\<open>S0\<close>, a direct subclass (\<^verbatim>\<open>T\<close> is the first class after
  it in its method resolution order), overrides \<^verbatim>\<open>m\<close> with something that has no
  \<^verbatim>\<open>__loghook__\<close>. Then decorating \<^verbatim>\<open>S0\<close> leaves \<^verbatim>\<open>m\<close> re-wrapped by \<open>d\<close>,
  so a call of it is a call of \<^verbatim>\<open>wrapped_f\<close> of \<open>d\<close> around the override; and when
  \<open>d\<close> is a \<^verbatim>\<open>LogCall\<close>, a call from a caller frame that reaches \<^verbatim>\<open>log_f\<close> with
  a logger handle, a file name that \<^verbatim>\<open>os.path.relpath\<close> accepts and an override
  that has a \<^verbatim>\<open>__name__\<close> hands the backend the record of the call, on that
  logger, under the name of the override. The loop of lines 193 to 198 looks at the
  dictionary of the first class of the method resolution order only: the first
  counterexample is a subclass \<^verbatim>\<open>V\<close> of an undecorated subclass \<^verbatim>\<open>U\<close> of
  \<^verbatim>\<open>T\<close>, whose override stays as it was written and logs nothing. The second is a
  direct subclass whose override has no \<^verbatim>\<open>__name__\<close>: it is re-wrapped, and the
  call raises the \<^verbatim>\<open>AttributeError\<close> of \<^verbatim>\<open>log_f\<close> without a record.
\<close>

theorem subdecorated_override_is_rewrapped:
  assumes T_decorated: "LogClass_call wT targs T0 tmro = Returned (targs', T)"
    and T_subdecorate: "keyIsTrue targs ''subdecorate''"
    and member: "map_of (k_dict T) m = Some fn"
    and marker: "subdecorate_of w fn = Some (Returned d)"
    and name: "m \<noteq> ''__subdecorate__''"
    and override: "map_of (k_dict S0) m = Some c"
    and fresh: "\<not> has_loghook w c"
    and S_decorated: "LogClass_call w sargs S0 (T # tmro) = Returned (sargs', S)"
    and body: "body = invoke c (Some \<lparr>co_filename = log_py, f_lineno = 76\<rparr>)"
  shows "class_getattr (S # T # tmro) m = Some (hook d c) \<and>
     has_loghook w' (hook d c) \<and>
     invoke (hook d c) caller args [] w' = wrapped_f d (callable_fn w' c body) caller args w' \<and>
     (\<forall>n fr instance others result err w1 file func.
        dlog_f d = LogCall_log_f \<and>
        select_logger (callable_fn w' c body) (instance # others) w' = (True, PLogger n) \<and>
        guarded_call d (callable_fn w' c body) True (PLogger n) (instance # others) w' =
          (Settled result err, w1) \<and>
        relpath w1 (co_filename fr) = Returned file \<and>
        callable_name w' c = Returned func \<longrightarrow>
        emitted (snd (invoke (hook d c) (Some fr) (instance # others) [] w')) =
          emitted w1 @
          [\<lparr>rec_logger = n,
            rec_msg = file @ '' '' @ str_int (f_lineno fr) @ '': '' @ func @ ''('' @
                      join '', '' (map (\<lambda>a. toShortStr w1 a default_max) (instance # others)) @
                      '') -> '' @ toShortStr w1 result default_max,
            rec_extra = []\<rparr>])"
proof -
  let ?klas1 = "if keyIsTrue sargs ''subdecorate''
                then class_setattr S0 ''__subdecorate__'' (Binder sargs) else S0"
  from LogClass_call_shape [OF T_decorated] obtain T2 where
    T: "T = class_setattr (class_setattr T2 ''__init__''
               (BoundInit targs' (class_getattr (T0 # tmro) ''__init__''))) ''__loghook__'' (Binder targs')"
    by (elim exE conjE)
  have names: "m \<noteq> ''__init__''" "m \<noteq> ''__loghook__''"
    using member marker unfolding T
    by (auto simp: map_of_class_setattr subdecorate_of_def split: if_splits)
  have parent_marked: "class_getattr (T # tmro) ''__subdecorate__'' \<noteq> None"
    using LogClass_call_subdecorate [OF T_decorated T_subdecorate] by auto
  from LogClass_call_shape [OF S_decorated] parent_marked obtain klas2 where
    S: "S = class_setattr (class_setattr klas2 ''__init__''
               (BoundInit sargs' (class_getattr (S0 # T # tmro) ''__init__''))) ''__loghook__'' (Binder sargs')"
    and loop: "rewrap_loop w (T # tmro) (map fst (k_dict T)) ?klas1 = Returned klas2"
    by (auto split: if_splits)
  have k1: "map_of (k_dict ?klas1) m = Some c"
    using override name by (simp add: map_of_class_setattr)
  have pm: "class_getattr (T # tmro) m = Some fn"
    using member by simp
  have keys: "m \<in> set (map fst (k_dict T))"
    using member by (metis map_of_eq_None_iff option.distinct(1) set_map)
  have k2: "map_of (k_dict klas2) m = Some (hook d c)"
    by (rule rewrap_loop_hit [OF pm marker fresh k1 keys loop])
  have "map_of (k_dict S) m = Some (hook d c)"
    unfolding S using k2 names by (simp add: map_of_class_setattr)
  then have a: "class_getattr (S # T # tmro) m = Some (hook d c)"
    by simp
  have b: "has_loghook w' (hook d c)"
    by (simp add: has_loghook_def hook_def)
  have c: "invoke (hook d c) caller args [] w' = wrapped_f d (callable_fn w' c body) caller args w'"
    for caller args
    by (simp add: hook_def body)
  have e: "emitted (snd (invoke (hook d c) (Some fr) (inst # others) [] w')) =
          emitted w1 @
          [\<lparr>rec_logger = n,
            rec_msg = fl @ '' '' @ str_int (f_lineno fr) @ '': '' @ func @ ''('' @
                      join '', '' (map (\<lambda>a. toShortStr w1 a default_max) (inst # others)) @
                      '') -> '' @ toShortStr w1 result default_max,
            rec_extra = []\<rparr>]"
    if strategy: "dlog_f d = LogCall_log_f"
      and logger: "select_logger (callable_fn w' c body) (inst # others) w' = (True, PLogger n)"
      and settled: "guarded_call d (callable_fn w' c body) True (PLogger n) (inst # others) w' =
          (Settled result err, w1)"
      and path: "relpath w1 (co_filename fr) = Returned fl"
      and named: "callable_name w' c = Returned func"
    for n fr inst others result err w1 fl func
  proof -
    have "invoke (hook d c) (Some fr) (inst # others) [] w' =
        report d (PLogger n) (callable_fn w' c body) (Some fr) (inst # others) result err w1"
      using wrapped_f_settled [OF logger settled] by (simp add: c)
    then show ?thesis
      by (simp add: report_def strategy LogCall_log_f_def callable_fn_def Let_def path named)
  qed
  from a b c e show ?thesis by blast
qed

theorem rewrap_witness:
  "LogClass_call w0 (Some sub_policy) class_T0 [object_class] = Returned (Some sub_policy, class_T) \<and>
   LogClass_call w0 None class_S0 [class_T, object_class] = Returned (Some sub_policy, class_S1) \<and>
   class_getattr [class_S1, class_T, object_class] ''m'' =
     Some (hook (LogCall (Some sub_policy)) (Fn eight)) \<and>
   class_getattr [class_S1, class_T, object_class] ''__init__'' =
     Some (BoundInit (Some sub_policy) (Some (Fn own_init))) \<and>
   invoke (BoundInit (Some sub_policy) (Some (Fn own_init))) (Some call_site) [PRef 0] []
     (world_with (instance_of ''S'' [])) =
     (Returned PNone, world_with (instance_of ''S'' [(''logger'', PLogger ''app.S'')])) \<and>
   invoke (hook (LogCall (Some sub_policy)) (Fn eight)) (Some call_site) [PRef 0] []
     (world_with (instance_of ''S'' [(''logger'', PLogger ''app.S'')])) =
     (Returned (PInt 8),
      (world_with (instance_of ''S'' [(''logger'', PLogger ''app.S'')]))
        \<lparr>emitted := [\<lparr>rec_logger = ''app.S'',
                       rec_msg = ''main.py 12: eight(<app.S object>) -> 8'', rec_extra = []\<rparr>]\<rparr>)"
proof -
  let ?d = "LogCall (Some sub_policy)"
  let ?w = "world_with (instance_of ''S'' [(''logger'', PLogger ''app.S'')])"
  let ?body = "invoke (Fn eight) (Some \<lparr>co_filename = log_py, f_lineno = 76\<rparr>)"
  have dT: "LogClass_call w0 (Some sub_policy) class_T0 [object_class] =
      Returned (Some sub_policy, class_T)"
    by (simp add: class_defs class_example_defs object_class_def sub_policy_def keyIsTrue_def
          eq_True_def Let_def)
  have dS: "LogClass_call w0 None class_S0 [class_T, object_class] =
      Returned (Some sub_policy, class_S1)"
    by (simp add: class_defs class_example_defs object_class_def sub_policy_def keyIsTrue_def
          eq_True_def Let_def LogCall_def)
  have sub: "keyIsTrue (Some sub_policy) ''subdecorate''"
    by (simp add: keyIsTrue_def sub_policy_def eq_True_def)
  have member: "map_of (k_dict class_T) ''m'' = Some (hook ?d (Fn seven))"
    by (simp add: class_T_def)
  have marker: "subdecorate_of w0 (hook ?d (Fn seven)) = Some (Returned ?d)"
    by (simp add: subdecorate_of_def hook_def LogCall_def keyIsTrue_def sub_policy_def eq_True_def)
  have name: "''m'' \<noteq> ''__subdecorate__''"
    by simp
  have override: "map_of (k_dict class_S0) ''m'' = Some (Fn eight)"
    by (simp add: class_S0_def)
  have fresh: "\<not> has_loghook w0 (Fn eight)"
    by (simp add: has_loghook_def)
  have i: "class_getattr [class_S1, class_T, object_class] ''__init__'' =
      Some (BoundInit (Some sub_policy) (Some (Fn own_init)))"
    by (simp add: class_S1_def)
  have n: "invoke (BoundInit (Some sub_policy) (Some (Fn own_init))) (Some call_site) [PRef 0] []
      (world_with (instance_of ''S'' [])) = (Returned PNone, ?w)"
    by (simp add: class_defs own_init_def sub_policy_def py_getattr_def py_class_def py_setattr_def
          getLogger_def world_with_def instance_of_def w0_def)
  have strategy: "dlog_f ?d = LogCall_log_f"
    by (simp add: LogCall_def)
  have logger: "select_logger (callable_fn ?w (Fn eight) ?body) [PRef 0] ?w = (True, PLogger ''app.S'')"
    by (simp add: model_defs example_defs)
  have settled: "guarded_call ?d (callable_fn ?w (Fn eight) ?body) True (PLogger ''app.S'') [PRef 0] ?w =
       (Settled (PInt 8) None, ?w)"
    by (simp add: model_defs example_defs callable_fn_def)
  have path: "relpath ?w (co_filename call_site) = Returned ''main.py''"
    by (simp add: example_defs)
  have named: "callable_name ?w (Fn eight) = Returned ''eight''"
    by (simp add: callable_name_def eight_def)
  note t = subdecorated_override_is_rewrapped
         [OF dT sub member marker name override fresh dS refl, where w' = ?w
          and caller = "Some call_site" and args = "[PRef 0]"]
  from t have m: "class_getattr [class_S1, class_T, object_class] ''m'' = Some (hook ?d (Fn eight))"
    by (elim conjE)
  from t strategy logger settled path named
  have e: "emitted (snd (invoke (hook ?d (Fn eight)) (Some call_site) [PRef 0] [] ?w)) =
      emitted ?w @
      [\<lparr>rec_logger = ''app.S'',
        rec_msg = ''main.py'' @ '' '' @ str_int (f_lineno call_site) @ '': '' @ ''eight'' @ ''('' @
                  join '', '' (map (\<lambda>a. toShortStr ?w a default_max) [PRef 0]) @
                  '') -> '' @ toShortStr ?w (PInt 8) default_max,
        rec_extra = []\<rparr>]"
    by blast
  have r: "invoke (hook ?d (Fn eight)) (Some call_site) [PRef 0] [] ?w =
      (Returned (PInt 8),
       ?w\<lparr>emitted := [\<lparr>rec_logger = ''app.S'',
                       rec_msg = ''main.py 12: eight(<app.S object>) -> 8'', rec_extra = []\<rparr>]\<rparr>)"
    by (simp add: model_defs example_defs class_defs digits.simps)
  from dT dS m i n r e show ?thesis
    by (intro conjI)
qed

theorem propagation_counterexample:
  "LogClass_call w0 None class_V0 [class_U, class_T, object_class] =
     Returned (Some sub_policy,
       class_V0\<lparr>k_dict := [(''m'', Fn eight),
                           (''__init__'', BoundInit (Some sub_policy) (Some (Fn own_init))),
                           (''__loghook__'', Binder (Some sub_policy))]\<rparr>) \<and>
   invoke (Fn eight) (Some call_site) [PRef 0] []
     (world_with (instance_of ''V'' [(''logger'', PLogger ''app.V'')])) =
     (Returned (PInt 8), world_with (instance_of ''V'' [(''logger'', PLogger ''app.V'')])) \<and>
   LogClass_call w0 None class_N0 [class_T, object_class] =
     Returned (Some sub_policy,
       class_N0\<lparr>k_dict := [(''m'', hook (LogCall (Some sub_policy)) (Fn nameless)),
                           (''__init__'', BoundInit (Some sub_policy) (Some (Fn own_init))),
                           (''__loghook__'', Binder (Some sub_policy))]\<rparr>) \<and>
   invoke (hook (LogCall (Some sub_policy)) (Fn nameless)) (Some call_site) [PRef 0] []
     (world_with (instance_of ''N'' [(''logger'', PLogger ''app.N'')])) =
     (Raised (AttributeError ''object has no attribute __name__''),
      world_with (instance_of ''N'' [(''logger'', PLogger ''app.N'')]))"
proof -
  have v: "LogClass_call w0 None class_V0 [class_U, class_T, object_class] =
     Returned (Some sub_policy,
       class_V0\<lparr>k_dict := [(''m'', Fn eight),
                           (''__init__'', BoundInit (Some sub_policy) (Some (Fn own_init))),
                           (''__loghook__'', Binder (Some sub_policy))]\<rparr>)"
    by (simp add: class_defs class_example_defs object_class_def sub_policy_def keyIsTrue_def
          eq_True_def Let_def LogCall_def py_getattr_def hasattr_def)
  have c: "invoke (Fn eight) (Some call_site) [PRef 0] []
     (world_with (instance_of ''V'' [(''logger'', PLogger ''app.V'')])) =
     (Returned (PInt 8), world_with (instance_of ''V'' [(''logger'', PLogger ''app.V'')]))"
    by (simp add: eight_def)
  have n: "LogClass_call w0 None class_N0 [class_T, object_class] =
     Returned (Some sub_policy,
       class_N0\<lparr>k_dict := [(''m'', hook (LogCall (Some sub_policy)) (Fn nameless)),
                           (''__init__'', BoundInit (Some sub_policy) (Some (Fn own_init))),
                           (''__loghook__'', Binder (Some sub_policy))]\<rparr>)"
    by (simp add: class_defs class_example_defs object_class_def sub_policy_def keyIsTrue_def
          eq_True_def Let_def LogCall_def py_getattr_def hasattr_def)
  have r: "invoke (hook (LogCall (Some sub_policy)) (Fn nameless)) (Some call_site) [PRef 0] []
     (world_with (instance_of ''N'' [(''logger'', PLogger ''app.N'')])) =
     (Raised (AttributeError ''object has no attribute __name__''),
      world_with (instance_of ''N'' [(''logger'', PLogger ''app.N'')]))"
    by (simp add: model_defs example_defs class_defs class_example_defs)
  from v c n r show ?thesis
    by (intro conjI)
qed

text \<open>
  C6. The truncation rule. \<^verbatim>\<open>toShortStr\<close> is the rule of the specification
  (\<open>shown\<close>): the display string when its length is at most the maximum, the type of the
  value as Python prints it otherwise. \<^verbatim>\<open>LogCall.log_f\<close> with a logger handle
  either raises what \<^verbatim>\<open>os.path.relpath\<close> or \<^verbatim>\<open>fn.__name__\<close> raises, or hands
  over one record, which shows every argument and the result under that rule with the
  maximum 20.
\<close>

theorem record_shows_short_values:
  "toShortStr w v mx = shown w mx v \<and>
   LogCall_log_f (PLogger n) fr fn args [] result w =
     (case relpath w (co_filename fr) of
        Raised e \<Rightarrow> (Raised e, w)
      | Returned file \<Rightarrow>
          (case fn_name fn of
             Raised e \<Rightarrow> (Raised e, w)
           | Returned func \<Rightarrow>
               (Returned (),
                w\<lparr>emitted := emitted w @
                   [\<lparr>rec_logger = n,
                     rec_msg = file @ '' '' @ str_int (f_lineno fr) @ '': '' @
                               func @ ''('' @ join '', '' (map (shown w 20) args) @ '') -> '' @
                               shown w 20 result,
                     rec_extra = []\<rparr>]\<rparr>)))"
proof -
  have t: "toStr w (py_type w v) = type_shown w v" for v
    by (simp add: toStr_def py_str_def py_type_def type_shown_def)
  have s: "toShortStr w v mx = shown w mx v" for v mx
    by (simp add: toShortStr_def shown_def t Let_def)
  have "(\<lambda>a. toShortStr w a default_max) = shown w 20"
    by (intro ext) (simp add: s default_max_def)
  then show ?thesis
    by (simp add: s LogCall_log_f_def Let_def default_max_def split: outcome.splits)
qed

theorem record_witness:
  "toShortStr w0 (PStr ''12345678901234567890'') default_max = ''12345678901234567890'' \<and>
   toShortStr w0 (PStr ''123456789012345678901'') default_max = ''<class '' @ [CHR 0x27] @ ''str'' @ [CHR 0x27] @ ''>'' \<and>
   emitted (snd (LogCall_log_f (PLogger ''app'') call_site compute
                   [PInt 3, PStr ''123456789012345678901''] [] (PInt 7) w0)) =
     [\<lparr>rec_logger = ''app'',
       rec_msg = ''main.py 12: compute(3, <class '' @ [CHR 0x27] @ ''str'' @ [CHR 0x27] @ ''>) -> 7'',
       rec_extra = []\<rparr>]"
  using record_shows_short_values [where w = w0 and v = "PStr ''12345678901234567890''" and mx = default_max]
    record_shows_short_values [where w = w0 and v = "PStr ''123456789012345678901''" and mx = default_max
      and n = "''app''" and fr = call_site and fn = compute
      and args = "[PInt 3, PStr ''123456789012345678901'']" and result = "PInt 7"]
  by (simp add: shown_def type_shown_def model_defs example_defs digits.simps)

text \<open>
  C7. The crash sentinel. When the callable raises an \<^verbatim>\<open>Exception\<close>, the
  result handed to \<^verbatim>\<open>log_f\<close> is the string \<^verbatim>\<open>CRASHED\<close> and the leaving trace
  is skipped; the claim is that the sentinel is never what the caller gets. Line 95
  asks for the truth value of \<^verbatim>\<open>err\<close>, not whether it is \<^verbatim>\<open>None\<close>: when the
  exception of the callable has a false truth value (its class defines
  \<^verbatim>\<open>__bool__\<close> or \<^verbatim>\<open>__len__\<close> so) and \<^verbatim>\<open>log_f\<close> returns normally or frame
  capture fails, the wrapped callable raises nothing and returns the sentinel.
\<close>

theorem falsy_exception_returns_sentinel:
  assumes sl: "select_logger fn args w = (classfn, logger)"
    and tin: "traced trace_in self classfn logger args w = (Returned (), w1)"
    and body: "fn_body fn args [] w1 = (Raised e, w2)"
    and exc: "exc_is_Exception e" and falsy: "\<not> exc_truthy e"
  shows "wrapped_f self fn None args w = (Returned (PStr ''CRASHED''), w2) \<and>
     (\<forall>fr u w3.
        dlog_f self logger fr fn args [] (PStr ''CRASHED'') w2 = (Returned u, w3) \<longrightarrow>
        wrapped_f self fn (Some fr) args w = (Returned (PStr ''CRASHED''), w3))"
proof -
  have "guarded_call self fn classfn logger args w = (Settled (PStr ''CRASHED'') (Some e), w2)"
    using exc by (simp add: guarded_call_steps [OF tin body] caught_def)
  from wrapped_f_settled [OF sl this] falsy show ?thesis
    by (simp add: report_def finally_block_def)
qed

theorem falsy_exception_witness:
  "fst (fn_body (failing Quiet) [PInt 1] [] w0) = Raised Quiet \<and>
   wrapped_f (LogCall None) (failing Quiet) (Some call_site) [PInt 1] w0 =
     (Returned (PStr ''CRASHED''),
      w0\<lparr>emitted := [\<lparr>rec_logger = ''app.function'',
                       rec_msg = ''main.py 12: failing(1) -> CRASHED'', rec_extra = []\<rparr>]\<rparr>)"
proof -
  have sl: "select_logger (failing Quiet) [PInt 1] w0 = (True, PLogger ''app.function'')"
    by (simp add: model_defs example_defs)
  have tin: "traced trace_in (LogCall None) True (PLogger ''app.function'') [PInt 1] w0 = (Returned (), w0)"
    by (simp add: model_defs)
  have body: "fn_body (failing Quiet) [PInt 1] [] w0 = (Raised Quiet, w0)"
    by (simp add: failing_def)
  have q: "exc_is_Exception Quiet" "\<not> exc_truthy Quiet"
    by (simp_all add: Quiet_def)
  from falsy_exception_returns_sentinel [OF sl tin body q] body
  show ?thesis
    by (simp add: model_defs example_defs digits.simps)
qed





text \<open>
  C10. Keyword arguments. A call of the wrapped callable with a keyword argument
  raises \<^verbatim>\<open>TypeError\<close> and leaves the world as it was, whatever the wrapped callable
  is; without keyword arguments it is \<^verbatim>\<open>wrapped_f\<close>; and \<^verbatim>\<open>log_f\<close> is only ever
  handed the empty keyword dictionary: two hooks that agree on it give the same call.
\<close>

theorem positional_arguments_only:
  "(kw \<noteq> [] \<longrightarrow>
      invoke (hook self c) caller args kw w =
        (Raised (TypeError ''wrapped_f() got an unexpected keyword argument''), w)) \<and>
   invoke (hook self c) caller args [] w =
     wrapped_f self (callable_fn w c (invoke c (Some \<lparr>co_filename = log_py, f_lineno = 76\<rparr>)))
       caller args w \<and>
   ((\<forall>lg fr f a r w'. h1 lg fr f a [] r w' = h2 lg fr f a [] r w') \<longrightarrow>
      wrapped_f (self\<lparr>dlog_f := h1\<rparr>) fn caller args w =
      wrapped_f (self\<lparr>dlog_f := h2\<rparr>) fn caller args w)"
proof -
  have "wrapped_f (self\<lparr>dlog_f := h1\<rparr>) fn caller args w =
        wrapped_f (self\<lparr>dlog_f := h2\<rparr>) fn caller args w"
    if "\<forall>lg fr f a r w'. h1 lg fr f a [] r w' = h2 lg fr f a [] r w'"
  proof -
    have r: "report (self\<lparr>dlog_f := h1\<rparr>) logger fn caller args result err w1 =
         report (self\<lparr>dlog_f := h2\<rparr>) logger fn caller args result err w1" for logger result err w1
      using that by (intro report_hook_cong) simp
    show ?thesis
      by (simp add: wrapped_f_def guarded_call_hook_irrelevant r split: prod.splits guarded.splits)
  qed
  then show ?thesis by (simp add: hook_def)
qed

theorem positional_witness:
  "fst (invoke (Fn count_kw) (Some call_site) [] [(''x'', PInt 1)] w0) = Returned (PInt 1) \<and>
   invoke (hook (LogCall None) (Fn count_kw)) (Some call_site) [] [(''x'', PInt 1)] w0 =
     (Raised (TypeError ''wrapped_f() got an unexpected keyword argument''), w0) \<and>
   wrapped_f ((LogCall None)\<lparr>dlog_f := \<lambda>lg fr f a kw r w. if kw = [] then (Returned (), w) else (Raised ValueError_bad, w)\<rparr>)
       compute (Some call_site) [PInt 3, PInt 4] w0 =
   wrapped_f ((LogCall None)\<lparr>dlog_f := LogCallBase_log_f\<rparr>) compute (Some call_site) [PInt 3, PInt 4] w0"
proof -
  have k: "[(''x'', PInt 1)] \<noteq> []" by simp
  have h: "\<forall>lg fr f a r w'. (\<lambda>lg fr f a kw r w. if kw = [] then (Returned (), w) else (Raised ValueError_bad, w)) lg fr f a [] r w' =
      LogCallBase_log_f lg fr f a [] r w'"
    by (simp add: LogCallBase_log_f_def)
  from positional_arguments_only [where kw = "[(''x'', PInt 1)]" and self = "LogCall None"
      and c = "Fn count_kw" and caller = "Some call_site" and args = "[]" and w = w0]
    positional_arguments_only [where self = "LogCall None" and caller = "Some call_site"
      and args = "[PInt 3, PInt 4]" and w = w0
      and ?h1.0 = "\<lambda>lg fr f a kw r w. if kw = [] then (Returned (), w) else (Raised ValueError_bad, w)"
      and ?h2.0 = LogCallBase_log_f and fn = compute]
  show ?thesis
    using k h by (simp add: count_kw_def)
qed
end
